theory Spec2Isabelle
  imports Main
begin

section \<open>Data model of the activities service (src/app.py)\<close>

text \<open>
  Modelled from the spec: the layout of an activity record. The file activities.json that
  \<open>load_activities\<close> reads is not part of the sources; app.py itself only reads and
  updates the key \<open>"participants"\<close> of a record. The specification lists the attributes
  description, schedule, capacity limit and the collection of participant emails, which
  Python keeps as a list (the handlers call \<open>append\<close> and \<open>remove\<close> on it).
\<close>

record activity =
  description :: string
  schedule :: string
  capacity :: nat
  participants :: "string list"

text \<open>
  The two module-level dictionaries \<open>activities\<close> (name to record) and \<open>teachers\<close>
  (username to password). The handlers mutate them in place; the model passes them along
  as one state value and returns the state after the call.
\<close>

record app_state =
  activities :: "string \<rightharpoonup> activity"
  teachers :: "string \<rightharpoonup> string"

text \<open>\<open>HTTPException(status_code=..., detail=...)\<close>.\<close>

datatype http_error = HTTPException (status_code: nat) (detail: string)

text \<open>
  What a handler returns on success: the redirect of \<open>root\<close>, the activities dictionary
  itself (\<open>get_activities\<close>), or a dictionary of string fields, kept in the order in
  which the source writes its keys.
\<close>

datatype response =
    RedirectResponse string
  | ActivityMapping "string \<rightharpoonup> activity"
  | JsonObject "(string \<times> string) list"

text \<open>
  A handler either raises (left) or returns (right); in both cases the stores are in some
  state afterwards.
\<close>

type_synonym outcome = "(http_error + response) \<times> app_state"

text \<open>
  Python's truth value of an optional string parameter (\<open>username: str = None\<close>):
  \<open>None\<close> and the empty string are false, every other string is true.
\<close>

fun truthy :: "string option \<Rightarrow> bool" where
  "truthy None = False"
| "truthy (Some v) = (v \<noteq> [])"

section \<open>The request handlers\<close>

definition root :: "app_state \<Rightarrow> outcome" where
  "root s = (Inr (RedirectResponse ''/static/index.html''), s)"

definition get_activities :: "app_state \<Rightarrow> outcome" where
  "get_activities s = (Inr (ActivityMapping (activities s)), s)"

definition login :: "app_state \<Rightarrow> string \<Rightarrow> string \<Rightarrow> outcome" where
  "login s username password =
     (if teachers s username = None \<or> teachers s username \<noteq> Some password
      then (Inl (HTTPException 401 ''Invalid credentials''), s)
      else (Inr (JsonObject [(''message'', ''Login successful''), (''username'', username)]), s))"

definition signup_for_activity :: "app_state \<Rightarrow> string \<Rightarrow> string \<Rightarrow> outcome" where
  "signup_for_activity s activity_name email =
     (case activities s activity_name of
        None \<Rightarrow> (Inl (HTTPException 404 ''Activity not found''), s)
      | Some activity \<Rightarrow>
          if email \<in> set (participants activity)
          then (Inl (HTTPException 400 ''Student is already signed up''), s)
          else (Inr (JsonObject [(''message'', ''Signed up '' @ email @ '' for '' @ activity_name)]),
                s\<lparr>activities := (activities s)(activity_name \<mapsto>
                     activity\<lparr>participants := participants activity @ [email]\<rparr>)\<rparr>))"

text \<open>
  \<open>list.remove\<close> deletes the first occurrence of its argument, which is \<open>remove1\<close>; it is
  only reached when the email is in the list, so its ValueError cannot arise. The
  credential test reads the two optional parameters only when both are true, hence not
  \<open>None\<close>.
\<close>

definition unregister_from_activity ::
  "app_state \<Rightarrow> string \<Rightarrow> string \<Rightarrow> string option \<Rightarrow> string option \<Rightarrow> outcome" where
  "unregister_from_activity s activity_name email username password =
     (if truthy username \<and> truthy password \<and>
         (teachers s (the username) = None \<or> teachers s (the username) \<noteq> Some (the password))
      then (Inl (HTTPException 401 ''Invalid teacher credentials''), s)
      else
        (case activities s activity_name of
           None \<Rightarrow> (Inl (HTTPException 404 ''Activity not found''), s)
         | Some activity \<Rightarrow>
             if email \<notin> set (participants activity)
             then (Inl (HTTPException 400 ''Student is not signed up for this activity''), s)
             else (Inr (JsonObject [(''message'', ''Unregistered '' @ email @ '' from '' @ activity_name)]),
                   s\<lparr>activities := (activities s)(activity_name \<mapsto>
                        activity\<lparr>participants := remove1 email (participants activity)\<rparr>)\<rparr>)))"

text \<open>
  The routes that the decorators of app.py register, one constructor per route with the
  parameters of its handler, and the call of the handler that a request leads to.
\<close>

datatype request =
    Root
  | GetActivities
  | Login string string
  | Signup string string
  | Unregister string string "string option" "string option"

fun dispatch :: "app_state \<Rightarrow> request \<Rightarrow> outcome" where
  "dispatch s Root = root s"
| "dispatch s GetActivities = get_activities s"
| "dispatch s (Login username password) = login s username password"
| "dispatch s (Signup activity_name email) = signup_for_activity s activity_name email"
| "dispatch s (Unregister activity_name email username password) =
     unregister_from_activity s activity_name email username password"

section \<open>A small store to run the handlers on\<close>

text \<open>
  The scenario of the specification: one activity, Chess Club, with one participant and
  room for one, and one teacher.
\<close>

definition chess_club :: activity where
  "chess_club = \<lparr>description = ''Learn strategies and compete in chess tournaments'',
                 schedule = ''Fridays, 3:30 PM - 5:00 PM'',
                 capacity = 1,
                 participants = [''a@x.com'']\<rparr>"

definition demo :: app_state where
  "demo = \<lparr>activities = [''Chess Club'' \<mapsto> chess_club],
           teachers = [''mchen'' \<mapsto> ''Secret1'']\<rparr>"

text \<open>
  A second store with two activities, to watch what a call leaves alone.
\<close>

definition book_club :: activity where
  "book_club = \<lparr>description = ''Read and discuss'',
                schedule = ''Mondays'',
                capacity = 5,
                participants = [''a@x.com'', ''b@x.com'', ''c@x.com'']\<rparr>"

definition library :: app_state where
  "library = \<lparr>activities = [''Chess Club'' \<mapsto> chess_club, ''Book Club'' \<mapsto> book_club],
              teachers = [''mchen'' \<mapsto> ''Secret1'']\<rparr>"

text \<open>
  A credential store in which two teachers, whose usernames differ in one character, have
  the same password.
\<close>

definition twins :: app_state where
  "twins = \<lparr>activities = Map.empty,
            teachers = [''mchen'' \<mapsto> ''Secret1'', ''mchan'' \<mapsto> ''Secret1'']\<rparr>"

section \<open>The invariant of the data model\<close>

text \<open>
  No activity of the store lists an email twice among its participants.
\<close>

definition no_duplicate_participants :: "app_state \<Rightarrow> bool" where
  "no_duplicate_participants s =
     (\<forall>activity_name act. activities s activity_name = Some act \<longrightarrow> distinct (participants act))"

section \<open>What a call may change\<close>

text \<open>
  Two activity records that agree on every attribute but, possibly, the participants.
\<close>

definition same_but_participants :: "activity \<Rightarrow> activity \<Rightarrow> bool" where
  "same_but_participants act act' =
     (description act' = description act \<and> schedule act' = schedule act
      \<and> capacity act' = capacity act)"

section \<open>Signup\<close>

text \<open>
  C2. For an activity of the store and an email that is not among its participants,
  signup returns its confirmation and the only change of the store is that the email is
  appended at the end of that activity's participants; the earlier participants keep their
  order. No hypothesis mentions the capacity: the call succeeds whatever the number of
  participants is compared with it.
\<close>

theorem signup_appends_without_capacity_check:
  assumes "activities s activity_name = Some act"
    and "email \<notin> set (participants act)"
  shows "signup_for_activity s activity_name email =
           (Inr (JsonObject [(''message'', ''Signed up '' @ email @ '' for '' @ activity_name)]),
            s\<lparr>activities := (activities s)(activity_name \<mapsto>
                 act\<lparr>participants := participants act @ [email]\<rparr>)\<rparr>)"
  using assms by (simp add: signup_for_activity_def)

text \<open>
  The club has room for one participant and already has one; the second signup succeeds
  and the list then holds two.
\<close>

theorem signup_appends_without_capacity_check_witness:
  "activities demo ''Chess Club'' = Some chess_club
   \<and> ''b@x.com'' \<notin> set (participants chess_club)
   \<and> capacity chess_club \<le> length (participants chess_club)
   \<and> signup_for_activity demo ''Chess Club'' ''b@x.com'' =
       (Inr (JsonObject [(''message'', ''Signed up b@x.com for Chess Club'')]),
        demo\<lparr>activities := (activities demo)(''Chess Club'' \<mapsto>
               chess_club\<lparr>participants := [''a@x.com'', ''b@x.com'']\<rparr>)\<rparr>)"
proof -
  have a: "activities demo ''Chess Club'' = Some chess_club"
    by (simp add: demo_def)
  have b: "''b@x.com'' \<notin> set (participants chess_club)"
    by (simp add: chess_club_def)
  have c: "capacity chess_club \<le> length (participants chess_club)"
    by (simp add: chess_club_def)
  have d: "participants chess_club @ [''b@x.com''] = [''a@x.com'', ''b@x.com'']"
    by (simp add: chess_club_def)
  from signup_appends_without_capacity_check [OF a b] a b c d show ?thesis
    by simp
qed

section \<open>Login\<close>

text \<open>
  C3, as the code has it. Login returns the confirmation message together with the
  username exactly when the credential store maps the username to the supplied password,
  the comparison being equality of strings; in every other case it raises 401, and it
  never changes the stores. Hence a password that differs from the stored one in any way
  (one character, or the case of one letter) is rejected. A changed username is rejected
  unless the changed name is itself stored with the supplied password, and in that case
  login succeeds under the changed name.
\<close>

theorem login_iff_exact_match:
  "(fst (login s username password) =
      Inr (JsonObject [(''message'', ''Login successful''), (''username'', username)])
      \<longleftrightarrow> teachers s username = Some password)
   \<and> (fst (login s username password) = Inl (HTTPException 401 ''Invalid credentials'')
      \<longleftrightarrow> teachers s username \<noteq> Some password)
   \<and> snd (login s username password) = s
   \<and> (\<forall>password'. teachers s username = Some password \<and> password' \<noteq> password
        \<longrightarrow> fst (login s username password') = Inl (HTTPException 401 ''Invalid credentials''))
   \<and> (\<forall>username'. teachers s username' \<noteq> Some password
        \<longrightarrow> fst (login s username' password) = Inl (HTTPException 401 ''Invalid credentials''))
   \<and> (\<forall>username'. teachers s username' = Some password
        \<longrightarrow> fst (login s username' password) =
             Inr (JsonObject [(''message'', ''Login successful''), (''username'', username')]))"
  by (auto simp: login_def)

theorem login_iff_exact_match_witness:
  "teachers demo ''mchen'' = Some ''Secret1''
   \<and> fst (login demo ''mchen'' ''Secret1'') =
       Inr (JsonObject [(''message'', ''Login successful''), (''username'', ''mchen'')])
   \<and> fst (login demo ''mchen'' ''secret1'') = Inl (HTTPException 401 ''Invalid credentials'')
   \<and> fst (login demo ''mchan'' ''Secret1'') = Inl (HTTPException 401 ''Invalid credentials'')
   \<and> teachers twins ''mchan'' = Some ''Secret1''
   \<and> fst (login twins ''mchan'' ''Secret1'') =
       Inr (JsonObject [(''message'', ''Login successful''), (''username'', ''mchan'')])"
proof -
  have a: "teachers demo ''mchen'' = Some ''Secret1''"
    by (simp add: demo_def)
  have b: "''secret1'' \<noteq> ''Secret1''"
    by simp
  have c: "teachers demo ''mchan'' \<noteq> Some ''Secret1''"
    by (simp add: demo_def)
  have d: "teachers twins ''mchan'' = Some ''Secret1''"
    by (simp add: twins_def)
  note t = login_iff_exact_match [of demo "''mchen''" "''Secret1''"]
  have ok: "fst (login demo ''mchen'' ''Secret1'') =
      Inr (JsonObject [(''message'', ''Login successful''), (''username'', ''mchen'')])"
    using t a by (simp only: simp_thms)
  have pw: "fst (login demo ''mchen'' ''secret1'') =
      Inl (HTTPException 401 ''Invalid credentials'')"
    using t [THEN conjunct2, THEN conjunct2, THEN conjunct2, THEN conjunct1, THEN spec,
             of "''secret1''"] a b
    by (simp only: simp_thms)
  have un: "fst (login demo ''mchan'' ''Secret1'') =
      Inl (HTTPException 401 ''Invalid credentials'')"
    using t [THEN conjunct2, THEN conjunct2, THEN conjunct2, THEN conjunct2, THEN conjunct1,
             THEN spec, of "''mchan''"] c
    by (simp only: simp_thms)
  have acc: "fst (login twins ''mchan'' ''Secret1'') =
      Inr (JsonObject [(''message'', ''Login successful''), (''username'', ''mchan'')])"
    using login_iff_exact_match [of twins "''mchen''" "''Secret1''", THEN conjunct2,
            THEN conjunct2, THEN conjunct2, THEN conjunct2, THEN conjunct2, THEN spec,
            of "''mchan''"] d
    by (simp only: simp_thms)
  from a ok pw un d acc show ?thesis by (simp only: simp_thms)
qed

text \<open>
  C3 as it is worded, with every one-character deviation in either field rejected, fails
  when two teachers share a password: mchan differs from the stored username mchen in
  its fourth character only, and login as mchan with the password of mchen succeeds,
  because that pair is a stored credential too.
\<close>

theorem login_shared_password_counterexample:
  "teachers twins ''mchen'' = Some ''Secret1''
   \<and> ''mchan'' = ''mchen''[3 := CHR ''a'']
   \<and> ''mchan'' \<noteq> ''mchen''
   \<and> fst (login twins ''mchan'' ''Secret1'') =
       Inr (JsonObject [(''message'', ''Login successful''), (''username'', ''mchan'')])"
  by (simp add: login_def twins_def numeral_3_eq_3)

section \<open>The order of the checks of signup\<close>

text \<open>
  C4. Signup first looks the activity name up and raises 404 when it is not a key of the
  store, whatever the email is; for an activity of the store it raises 400 when the email
  is already among the participants. Both leave the stores as they were. For an activity
  of the store, repeating a signup right after it was made raises 400.
\<close>

theorem signup_checks_in_order:
  "(activities s activity_name = None \<longrightarrow>
      signup_for_activity s activity_name email =
        (Inl (HTTPException 404 ''Activity not found''), s))
   \<and> (\<forall>act. activities s activity_name = Some act \<and> email \<in> set (participants act) \<longrightarrow>
        signup_for_activity s activity_name email =
          (Inl (HTTPException 400 ''Student is already signed up''), s))
   \<and> (activities s activity_name \<noteq> None \<longrightarrow>
        fst (signup_for_activity (snd (signup_for_activity s activity_name email))
               activity_name email) =
          Inl (HTTPException 400 ''Student is already signed up''))"
  by (auto simp: signup_for_activity_def)

theorem signup_checks_in_order_witness:
  "activities demo ''Unknown Club'' = None
   \<and> signup_for_activity demo ''Unknown Club'' ''a@x.com'' =
       (Inl (HTTPException 404 ''Activity not found''), demo)
   \<and> activities demo ''Chess Club'' = Some chess_club
   \<and> ''a@x.com'' \<in> set (participants chess_club)
   \<and> signup_for_activity demo ''Chess Club'' ''a@x.com'' =
       (Inl (HTTPException 400 ''Student is already signed up''), demo)
   \<and> ''b@x.com'' \<notin> set (participants chess_club)
   \<and> fst (signup_for_activity (snd (signup_for_activity demo ''Chess Club'' ''b@x.com''))
            ''Chess Club'' ''b@x.com'') =
       Inl (HTTPException 400 ''Student is already signed up'')"
proof -
  have a: "activities demo ''Unknown Club'' = None"
    by (simp add: demo_def)
  have b: "activities demo ''Chess Club'' = Some chess_club"
    by (simp add: demo_def)
  have c: "''a@x.com'' \<in> set (participants chess_club)"
    by (simp add: chess_club_def)
  have d: "''b@x.com'' \<notin> set (participants chess_club)"
    by (simp add: chess_club_def)
  have nf: "signup_for_activity demo ''Unknown Club'' ''a@x.com'' =
      (Inl (HTTPException 404 ''Activity not found''), demo)"
    using signup_checks_in_order [of demo "''Unknown Club''" "''a@x.com''", THEN conjunct1] a
    by (simp only: simp_thms)
  have cf: "signup_for_activity demo ''Chess Club'' ''a@x.com'' =
      (Inl (HTTPException 400 ''Student is already signed up''), demo)"
    using signup_checks_in_order [of demo "''Chess Club''" "''a@x.com''",
            THEN conjunct2, THEN conjunct1, THEN spec, of chess_club] b c
    by (simp only: simp_thms)
  have tw: "fst (signup_for_activity (snd (signup_for_activity demo ''Chess Club'' ''b@x.com''))
            ''Chess Club'' ''b@x.com'') =
      Inl (HTTPException 400 ''Student is already signed up'')"
    using signup_checks_in_order [of demo "''Chess Club''" "''b@x.com''",
            THEN conjunct2, THEN conjunct2] b
    by simp
  from a b c d nf cf tw show ?thesis by (simp only: simp_thms)
qed

section \<open>Authentication of unregister\<close>


lemma unregister_accepts_match:
  "teachers s u = Some p \<Longrightarrow>
   unregister_from_activity s activity_name email (Some u) (Some p) =
   unregister_from_activity s activity_name email None None"
  by (simp add: unregister_from_activity_def)

lemma unregister_unauthenticated_never_401:
  "fst (unregister_from_activity s activity_name email None None) = Inl err \<Longrightarrow>
   status_code err \<noteq> 401"
  by (auto simp: unregister_from_activity_def split: option.splits if_splits)

lemma unregister_unauthenticated_ignores_teachers:
  "fst (unregister_from_activity (s\<lparr>teachers := t\<rparr>) activity_name email None None) =
   fst (unregister_from_activity s activity_name email None None)"
  by (simp add: unregister_from_activity_def split: option.splits)

text \<open>
  C1, as the code has it. When username and password are both supplied and both are
  non-empty, a pair that the credential store does not hold makes unregister raise 401
  with the stores untouched, whatever the activity name and the email are (no other check
  comes first), and a pair that the store holds lets the call go on exactly as a call
  without credentials. When neither is supplied, the call never raises 401 and its result
  does not depend on the credential store.
\<close>

theorem unregister_authentication:
  "(u \<noteq> [] \<and> p \<noteq> [] \<and> teachers s u \<noteq> Some p \<longrightarrow>
      unregister_from_activity s activity_name email (Some u) (Some p) =
        (Inl (HTTPException 401 ''Invalid teacher credentials''), s))
   \<and> (u \<noteq> [] \<and> p \<noteq> [] \<and> teachers s u = Some p \<longrightarrow>
      unregister_from_activity s activity_name email (Some u) (Some p) =
        unregister_from_activity s activity_name email None None)
   \<and> (\<forall>err. fst (unregister_from_activity s activity_name email None None) = Inl err \<longrightarrow>
        status_code err \<noteq> 401)
   \<and> fst (unregister_from_activity (s\<lparr>teachers := t\<rparr>) activity_name email None None) =
       fst (unregister_from_activity s activity_name email None None)"
proof (intro conjI impI allI)
  assume "u \<noteq> [] \<and> p \<noteq> [] \<and> teachers s u \<noteq> Some p"
  then show "unregister_from_activity s activity_name email (Some u) (Some p) =
        (Inl (HTTPException 401 ''Invalid teacher credentials''), s)"
    by (auto simp: unregister_from_activity_def)
next
  assume "u \<noteq> [] \<and> p \<noteq> [] \<and> teachers s u = Some p"
  then show "unregister_from_activity s activity_name email (Some u) (Some p) =
        unregister_from_activity s activity_name email None None"
    by (simp add: unregister_accepts_match)
next
  fix err
  assume "fst (unregister_from_activity s activity_name email None None) = Inl err"
  then show "status_code err \<noteq> 401"
    by (rule unregister_unauthenticated_never_401)
next
  show "fst (unregister_from_activity (s\<lparr>teachers := t\<rparr>) activity_name email None None) =
       fst (unregister_from_activity s activity_name email None None)"
    by (rule unregister_unauthenticated_ignores_teachers)
qed

theorem unregister_authentication_witness:
  "''mchen'' \<noteq> [] \<and> ''wrong'' \<noteq> [] \<and> teachers demo ''mchen'' \<noteq> Some ''wrong''
   \<and> unregister_from_activity demo ''Unknown Club'' ''z@x.com'' (Some ''mchen'') (Some ''wrong'') =
       (Inl (HTTPException 401 ''Invalid teacher credentials''), demo)
   \<and> ''Secret1'' \<noteq> [] \<and> teachers demo ''mchen'' = Some ''Secret1''
   \<and> unregister_from_activity demo ''Unknown Club'' ''z@x.com'' (Some ''mchen'') (Some ''Secret1'') =
       unregister_from_activity demo ''Unknown Club'' ''z@x.com'' None None
   \<and> fst (unregister_from_activity demo ''Unknown Club'' ''z@x.com'' None None) =
       Inl (HTTPException 404 ''Activity not found'')
   \<and> status_code (HTTPException 404 ''Activity not found'') \<noteq> 401"
proof -
  have a: "''mchen'' \<noteq> [] \<and> ''wrong'' \<noteq> [] \<and> teachers demo ''mchen'' \<noteq> Some ''wrong''"
    by (simp add: demo_def)
  have b: "''mchen'' \<noteq> [] \<and> ''Secret1'' \<noteq> [] \<and> teachers demo ''mchen'' = Some ''Secret1''"
    by (simp add: demo_def)
  have c: "fst (unregister_from_activity demo ''Unknown Club'' ''z@x.com'' None None) =
       Inl (HTTPException 404 ''Activity not found'')"
    by (simp add: unregister_from_activity_def demo_def)
  note t1 = unregister_authentication [of "''mchen''" "''wrong''" demo "''Unknown Club''" "''z@x.com''"]
  note t2 = unregister_authentication [of "''mchen''" "''Secret1''" demo "''Unknown Club''" "''z@x.com''"]
  have r1: "unregister_from_activity demo ''Unknown Club'' ''z@x.com'' (Some ''mchen'') (Some ''wrong'') =
       (Inl (HTTPException 401 ''Invalid teacher credentials''), demo)"
    using t1 [THEN conjunct1] a by (simp only: simp_thms)
  have r2: "unregister_from_activity demo ''Unknown Club'' ''z@x.com'' (Some ''mchen'') (Some ''Secret1'') =
       unregister_from_activity demo ''Unknown Club'' ''z@x.com'' None None"
    using t2 [THEN conjunct2, THEN conjunct1] b by (simp only: simp_thms)
  have r3: "status_code (HTTPException 404 ''Activity not found'') \<noteq> 401"
    using t2 [THEN conjunct2, THEN conjunct2, THEN conjunct1, THEN spec,
              of "HTTPException 404 ''Activity not found''"] c
    by (simp only: simp_thms)
  from a b c r1 r2 r3 show ?thesis by (simp only: simp_thms)
qed

text \<open>
  C1 as it is worded fails when both values are supplied and one of them is the empty
  string: the teacher mchen is stored with another password, the empty password does not
  match it, and still the call is not rejected but removes the participant.
\<close>

theorem unregister_empty_credential_counterexample:
  "teachers demo ''mchen'' \<noteq> Some ''''
   \<and> unregister_from_activity demo ''Chess Club'' ''a@x.com'' (Some ''mchen'') (Some []) =
       (Inr (JsonObject [(''message'', ''Unregistered a@x.com from Chess Club'')]),
        demo\<lparr>activities := (activities demo)(''Chess Club'' \<mapsto>
               chess_club\<lparr>participants := []\<rparr>)\<rparr>)"
  by (simp add: unregister_from_activity_def demo_def chess_club_def)



section \<open>The checks of unregister after authentication\<close>

text \<open>
  C5. For an unregister call whose credentials are accepted or not tested (that is, the
  condition of the 401 branch is false): an activity name that is not a key of the store
  raises 404, and for an activity of the store an email that is not among its participants
  raises 400. The stores stay as they were.
\<close>

theorem unregister_checks_after_authentication:
  assumes "truthy username \<and> truthy password \<longrightarrow> teachers s (the username) = Some (the password)"
  shows "(activities s activity_name = None \<longrightarrow>
            unregister_from_activity s activity_name email username password =
              (Inl (HTTPException 404 ''Activity not found''), s))
         \<and> (\<forall>act. activities s activity_name = Some act \<and> email \<notin> set (participants act) \<longrightarrow>
              unregister_from_activity s activity_name email username password =
                (Inl (HTTPException 400 ''Student is not signed up for this activity''), s))"
  using assms by (auto simp: unregister_from_activity_def)

theorem unregister_checks_after_authentication_witness:
  "\<not> truthy None
   \<and> activities demo ''Unknown Club'' = None
   \<and> unregister_from_activity demo ''Unknown Club'' ''a@x.com'' None None =
       (Inl (HTTPException 404 ''Activity not found''), demo)
   \<and> truthy (Some ''mchen'') \<and> truthy (Some ''Secret1'')
   \<and> teachers demo ''mchen'' = Some ''Secret1''
   \<and> activities demo ''Chess Club'' = Some chess_club
   \<and> ''z@x.com'' \<notin> set (participants chess_club)
   \<and> unregister_from_activity demo ''Chess Club'' ''z@x.com'' (Some ''mchen'') (Some ''Secret1'') =
       (Inl (HTTPException 400 ''Student is not signed up for this activity''), demo)"
proof -
  have a: "truthy None \<and> truthy None \<longrightarrow> teachers demo (the None) = Some (the None)"
    by simp
  have b: "truthy (Some ''mchen'') \<and> truthy (Some ''Secret1'')
        \<longrightarrow> teachers demo (the (Some ''mchen'')) = Some (the (Some ''Secret1''))"
    by (simp add: demo_def)
  have c: "activities demo ''Unknown Club'' = None"
    by (simp add: demo_def)
  have d: "activities demo ''Chess Club'' = Some chess_club"
    by (simp add: demo_def)
  have e: "''z@x.com'' \<notin> set (participants chess_club)"
    by (simp add: chess_club_def)
  have r1: "unregister_from_activity demo ''Unknown Club'' ''a@x.com'' None None =
       (Inl (HTTPException 404 ''Activity not found''), demo)"
    using unregister_checks_after_authentication [OF a, THEN conjunct1,
            of "''Unknown Club''" "''a@x.com''"] c
    by (simp only: simp_thms)
  have r2: "unregister_from_activity demo ''Chess Club'' ''z@x.com'' (Some ''mchen'') (Some ''Secret1'') =
       (Inl (HTTPException 400 ''Student is not signed up for this activity''), demo)"
    using unregister_checks_after_authentication [OF b, THEN conjunct2, THEN spec,
            of "''Chess Club''" chess_club "''z@x.com''"] d e
    by (simp only: simp_thms)
  have f: "\<not> truthy None"
    by simp
  have g: "truthy (Some ''mchen'') \<and> truthy (Some ''Secret1'')"
    by simp
  have h: "teachers demo ''mchen'' = Some ''Secret1''"
    by (simp add: demo_def)
  from c d e f g h r1 r2 show ?thesis by (simp only: simp_thms)
qed

section \<open>The effect of unregister\<close>

text \<open>
  \<open>remove1\<close> takes out the first occurrence and keeps what stands before and after it.
\<close>

lemma remove1_splits_at_first:
  "x \<in> set xs \<Longrightarrow> \<exists>ys zs. xs = ys @ x # zs \<and> x \<notin> set ys \<and> remove1 x xs = ys @ zs"
proof -
  assume "x \<in> set xs"
  then obtain ys zs where s: "xs = ys @ x # zs" and n: "x \<notin> set ys"
    by (auto dest: split_list_first)
  from n have "remove1 x (ys @ x # zs) = ys @ zs"
    by (simp add: remove1_append)
  with s n show ?thesis by blast
qed

lemma unregister_success:
  assumes "activities s activity_name = Some act"
    and "fst (unregister_from_activity s activity_name email username password) = Inr msg"
  shows "email \<in> set (participants act)"
    and "unregister_from_activity s activity_name email username password =
           (Inr (JsonObject [(''message'', ''Unregistered '' @ email @ '' from '' @ activity_name)]),
            s\<lparr>activities := (activities s)(activity_name \<mapsto>
                 act\<lparr>participants := remove1 email (participants act)\<rparr>)\<rparr>)"
  using assms by (auto simp: unregister_from_activity_def split: if_splits)

text \<open>
  C6. For an activity of the store and an email among its participants, an unregister
  call that succeeds removes one entry, the first occurrence of that email: the
  participants before it and after it stay as they were and in their order, the other
  attributes of the activity, every other activity and the credential store are unchanged.
  When the activity lists no email twice, the email is then no longer a participant and
  the set of the other participants is the same.
\<close>

theorem unregister_removes_exactly_one:
  assumes "activities s activity_name = Some act"
    and "email \<in> set (participants act)"
    and "fst (unregister_from_activity s activity_name email username password) = Inr msg"
  shows "(\<exists>before after.
            participants act = before @ email # after \<and> email \<notin> set before
            \<and> snd (unregister_from_activity s activity_name email username password) =
                s\<lparr>activities := (activities s)(activity_name \<mapsto>
                     act\<lparr>participants := before @ after\<rparr>)\<rparr>)
         \<and> (\<forall>other. other \<noteq> activity_name \<longrightarrow>
               activities (snd (unregister_from_activity s activity_name email username password)) other =
               activities s other)
         \<and> teachers (snd (unregister_from_activity s activity_name email username password)) = teachers s
         \<and> (distinct (participants act) \<longrightarrow>
               (\<exists>act'. activities (snd (unregister_from_activity s activity_name email username password))
                         activity_name = Some act'
                      \<and> set (participants act') = set (participants act) - {email}))"
proof -
  let ?s' = "snd (unregister_from_activity s activity_name email username password)"
  have post: "?s' = s\<lparr>activities := (activities s)(activity_name \<mapsto>
                 act\<lparr>participants := remove1 email (participants act)\<rparr>)\<rparr>"
    using unregister_success(2) [OF assms(1) assms(3)] by simp
  from remove1_splits_at_first [OF assms(2)] obtain before after
    where sp: "participants act = before @ email # after" "email \<notin> set before"
      "remove1 email (participants act) = before @ after"
    by blast
  have one: "\<exists>before after.
            participants act = before @ email # after \<and> email \<notin> set before
            \<and> ?s' = s\<lparr>activities := (activities s)(activity_name \<mapsto>
                     act\<lparr>participants := before @ after\<rparr>)\<rparr>"
    using sp post by metis
  have others: "\<forall>other. other \<noteq> activity_name \<longrightarrow> activities ?s' other = activities s other"
    by (simp add: post)
  have creds: "teachers ?s' = teachers s"
    by (simp add: post)
  have gone: "distinct (participants act) \<longrightarrow>
               (\<exists>act'. activities ?s' activity_name = Some act'
                      \<and> set (participants act') = set (participants act) - {email})"
    by (simp add: post)
  from one others creds gone show ?thesis by (simp only: simp_thms)
qed

theorem unregister_removes_exactly_one_witness:
  "activities library ''Book Club'' = Some book_club
   \<and> ''b@x.com'' \<in> set (participants book_club)
   \<and> fst (unregister_from_activity library ''Book Club'' ''b@x.com'' None None) =
       Inr (JsonObject [(''message'', ''Unregistered b@x.com from Book Club'')])
   \<and> activities (snd (unregister_from_activity library ''Book Club'' ''b@x.com'' None None))
        ''Chess Club'' = Some chess_club
   \<and> teachers (snd (unregister_from_activity library ''Book Club'' ''b@x.com'' None None)) =
       teachers library
   \<and> distinct (participants book_club)
   \<and> (\<exists>act'. activities (snd (unregister_from_activity library ''Book Club'' ''b@x.com'' None None))
                 ''Book Club'' = Some act'
              \<and> set (participants act') = {''a@x.com'', ''c@x.com''})"
proof -
  have a: "activities library ''Book Club'' = Some book_club"
    by (simp add: library_def)
  have b: "''b@x.com'' \<in> set (participants book_club)"
    by (simp add: book_club_def)
  have c: "fst (unregister_from_activity library ''Book Club'' ''b@x.com'' None None) =
       Inr (JsonObject [(''message'', ''Unregistered b@x.com from Book Club'')])"
    by (simp add: unregister_from_activity_def library_def book_club_def)
  have d: "distinct (participants book_club)"
    by (simp add: book_club_def)
  have e: "''Chess Club'' \<noteq> ''Book Club''"
    by simp
  have f: "activities library ''Chess Club'' = Some chess_club"
    by (simp add: library_def)
  have g: "set (participants book_club) - {''b@x.com''} = {''a@x.com'', ''c@x.com''}"
    by (auto simp: book_club_def)
  note t = unregister_removes_exactly_one [OF a b c]
  have r1: "activities (snd (unregister_from_activity library ''Book Club'' ''b@x.com'' None None))
        ''Chess Club'' = Some chess_club"
    using t [THEN conjunct2, THEN conjunct1, THEN spec, of "''Chess Club''"] e f
    by (simp only: simp_thms)
  have r2: "teachers (snd (unregister_from_activity library ''Book Club'' ''b@x.com'' None None)) =
       teachers library"
    using t [THEN conjunct2, THEN conjunct2, THEN conjunct1] .
  have r3: "\<exists>act'. activities (snd (unregister_from_activity library ''Book Club'' ''b@x.com'' None None))
                 ''Book Club'' = Some act'
              \<and> set (participants act') = {''a@x.com'', ''c@x.com''}"
    using t [THEN conjunct2, THEN conjunct2, THEN conjunct2] d g
    by (simp only: simp_thms)
  from a b c d r1 r2 r3 show ?thesis by (simp only: simp_thms)
qed

section \<open>Preservation of the invariant\<close>

lemma signup_keeps_no_duplicates:
  "no_duplicate_participants s \<Longrightarrow>
   no_duplicate_participants (snd (signup_for_activity s activity_name email))"
  by (auto simp: no_duplicate_participants_def signup_for_activity_def
           split: option.splits if_splits)

lemma unregister_keeps_no_duplicates:
  "no_duplicate_participants s \<Longrightarrow>
   no_duplicate_participants
     (snd (unregister_from_activity s activity_name email username password))"
  by (auto simp: no_duplicate_participants_def unregister_from_activity_def
           split: option.splits if_splits)

text \<open>
  C7. Every request (root, list, login, signup, unregister) leaves the store without
  duplicate participants when it was so before the call, whether the call returns or
  raises.
\<close>

theorem no_duplicates_preserved:
  assumes "no_duplicate_participants s"
  shows "no_duplicate_participants (snd (dispatch s req))"
proof (cases req)
  case Root
  with assms show ?thesis by (simp add: root_def)
next
  case GetActivities
  with assms show ?thesis by (simp add: get_activities_def)
next
  case (Login username password)
  with assms show ?thesis by (simp add: login_def)
next
  case (Signup activity_name email)
  with assms show ?thesis by (simp add: signup_keeps_no_duplicates)
next
  case (Unregister activity_name email username password)
  with assms show ?thesis by (simp add: unregister_keeps_no_duplicates)
qed

theorem no_duplicates_preserved_witness:
  "no_duplicate_participants demo
   \<and> no_duplicate_participants (snd (dispatch demo (Signup ''Chess Club'' ''b@x.com'')))
   \<and> no_duplicate_participants (snd (dispatch demo (Signup ''Chess Club'' ''a@x.com'')))
   \<and> no_duplicate_participants (snd (dispatch demo (Unregister ''Chess Club'' ''a@x.com'' None None)))"
proof -
  have a: "no_duplicate_participants demo"
    by (auto simp: no_duplicate_participants_def demo_def chess_club_def split: if_splits)
  from a no_duplicates_preserved [OF a] show ?thesis
    by (simp only: simp_thms)
qed

section \<open>The frame of the handlers\<close>

lemma signup_frame:
  "dom (activities (snd (signup_for_activity s activity_name email))) = dom (activities s)
   \<and> teachers (snd (signup_for_activity s activity_name email)) = teachers s
   \<and> (\<forall>name act. activities s name = Some act \<longrightarrow>
        (\<exists>act'. activities (snd (signup_for_activity s activity_name email)) name = Some act'
               \<and> same_but_participants act act'))"
  by (auto simp: signup_for_activity_def same_but_participants_def
           split: option.splits if_splits)

lemma unregister_frame:
  "dom (activities (snd (unregister_from_activity s activity_name email username password))) =
     dom (activities s)
   \<and> teachers (snd (unregister_from_activity s activity_name email username password)) = teachers s
   \<and> (\<forall>name act. activities s name = Some act \<longrightarrow>
        (\<exists>act'. activities (snd (unregister_from_activity s activity_name email username password))
                  name = Some act'
               \<and> same_but_participants act act'))"
  by (auto simp: unregister_from_activity_def same_but_participants_def
           split: option.splits if_splits)

text \<open>
  C8. No request changes the set of activity names or the credential store, and every
  activity of the store is after the call the same record up to its participants.
\<close>

theorem runtime_mutates_participants_only:
  "dom (activities (snd (dispatch s req))) = dom (activities s)
   \<and> teachers (snd (dispatch s req)) = teachers s
   \<and> (\<forall>name act. activities s name = Some act \<longrightarrow>
        (\<exists>act'. activities (snd (dispatch s req)) name = Some act'
               \<and> same_but_participants act act'))"
proof (cases req)
  case Root
  then show ?thesis by (simp add: root_def same_but_participants_def)
next
  case GetActivities
  then show ?thesis by (simp add: get_activities_def same_but_participants_def)
next
  case (Login username password)
  then show ?thesis by (simp add: login_def same_but_participants_def)
next
  case (Signup activity_name email)
  then show ?thesis using signup_frame [of s activity_name email] by simp
next
  case (Unregister activity_name email username password)
  then show ?thesis
    using unregister_frame [of s activity_name email username password] by simp
qed

theorem runtime_mutates_participants_only_witness:
  "activities demo ''Chess Club'' = Some chess_club
   \<and> dom (activities (snd (dispatch demo (Signup ''Chess Club'' ''b@x.com'')))) =
       dom (activities demo)
   \<and> teachers (snd (dispatch demo (Signup ''Chess Club'' ''b@x.com''))) = teachers demo
   \<and> (\<exists>act'. activities (snd (dispatch demo (Signup ''Chess Club'' ''b@x.com''))) ''Chess Club'' =
               Some act'
            \<and> same_but_participants chess_club act')"
proof -
  have a: "activities demo ''Chess Club'' = Some chess_club"
    by (simp add: demo_def)
  note t = runtime_mutates_participants_only [of demo "Signup ''Chess Club'' ''b@x.com''"]
  have r: "\<exists>act'. activities (snd (dispatch demo (Signup ''Chess Club'' ''b@x.com''))) ''Chess Club'' =
               Some act'
            \<and> same_but_participants chess_club act'"
    using t [THEN conjunct2, THEN conjunct2, THEN spec, THEN spec,
             of "''Chess Club''" chess_club] a
    by (simp only: simp_thms)
  from a t [THEN conjunct1] t [THEN conjunct2, THEN conjunct1] r show ?thesis
    by (simp only: simp_thms)
qed

section \<open>Errors come before any mutation\<close>

text \<open>
  C9. Whenever a request raises, whatever the error is, the two stores are after the
  call exactly what they were before it.
\<close>

theorem errors_leave_stores_unchanged:
  assumes "fst (dispatch s req) = Inl err"
  shows "snd (dispatch s req) = s"
proof (cases req)
  case Root
  then show ?thesis by (simp add: root_def)
next
  case GetActivities
  then show ?thesis by (simp add: get_activities_def)
next
  case (Login username password)
  then show ?thesis by (simp add: login_def)
next
  case (Signup activity_name email)
  with assms show ?thesis
    by (auto simp: signup_for_activity_def split: option.splits if_splits)
next
  case (Unregister activity_name email username password)
  with assms show ?thesis
    by (auto simp: unregister_from_activity_def split: option.splits if_splits)
qed

theorem errors_leave_stores_unchanged_witness:
  "fst (dispatch demo (Login ''mchen'' ''wrong'')) = Inl (HTTPException 401 ''Invalid credentials'')
   \<and> snd (dispatch demo (Login ''mchen'' ''wrong'')) = demo
   \<and> fst (dispatch demo (Unregister ''Chess Club'' ''a@x.com'' (Some ''mchen'') (Some ''wrong''))) =
       Inl (HTTPException 401 ''Invalid teacher credentials'')
   \<and> snd (dispatch demo (Unregister ''Chess Club'' ''a@x.com'' (Some ''mchen'') (Some ''wrong''))) = demo
   \<and> fst (dispatch demo (Signup ''Unknown Club'' ''a@x.com'')) =
       Inl (HTTPException 404 ''Activity not found'')
   \<and> snd (dispatch demo (Signup ''Unknown Club'' ''a@x.com'')) = demo
   \<and> fst (dispatch demo (Unregister ''Chess Club'' ''z@x.com'' None None)) =
       Inl (HTTPException 400 ''Student is not signed up for this activity'')
   \<and> snd (dispatch demo (Unregister ''Chess Club'' ''z@x.com'' None None)) = demo"
proof -
  have a: "fst (dispatch demo (Login ''mchen'' ''wrong'')) =
      Inl (HTTPException 401 ''Invalid credentials'')"
    by (simp add: login_def demo_def)
  have b: "fst (dispatch demo (Unregister ''Chess Club'' ''a@x.com'' (Some ''mchen'') (Some ''wrong''))) =
       Inl (HTTPException 401 ''Invalid teacher credentials'')"
    by (simp add: unregister_from_activity_def demo_def)
  have c: "fst (dispatch demo (Signup ''Unknown Club'' ''a@x.com'')) =
       Inl (HTTPException 404 ''Activity not found'')"
    by (simp add: signup_for_activity_def demo_def)
  have d: "fst (dispatch demo (Unregister ''Chess Club'' ''z@x.com'' None None)) =
       Inl (HTTPException 400 ''Student is not signed up for this activity'')"
    by (simp add: unregister_from_activity_def demo_def chess_club_def)
  from a b c d
    errors_leave_stores_unchanged [OF a] errors_leave_stores_unchanged [OF b]
    errors_leave_stores_unchanged [OF c] errors_leave_stores_unchanged [OF d]
  show ?thesis by (simp only: simp_thms)
qed

end
